theory Spec2Isabelle
  imports Complex_Main "HOL-Library.Multiset"
begin

text \<open>
  The aggregation and derived-state layer of the Vanguard dashboard: the merge of owned
  and recently played games, the vault's filter and sort, the achievement resolver (the
  gateway route and the hook that merges and orders its answer), the mastery classifier,
  the loaders of the persisted local state and the genre facet scan. The definitions come
  first, each a translation of one function of the sources; the facts and the claims about
  them follow.

  Values are typed by the fields the code reads. What the platform supplies and the
  sources do not define (\<^verbatim>\<open>JSON.parse\<close>, \<^verbatim>\<open>JSON.stringify\<close>, \<^verbatim>\<open>toLowerCase\<close>,
  \<^verbatim>\<open>localeCompare\<close>, the HTTP requests) is a parameter of the function that uses it.
\<close>

section \<open>Data model\<close>

text \<open>
  The \<^verbatim>\<open>Game\<close> objects of the upstream responses, with the fields the aggregation
  code reads and writes. \<^verbatim>\<open>playtime_2weeks\<close> is optional upstream (the code guards it
  with \<^verbatim>\<open>|| 0\<close>), so \<open>None\<close> stands for \<^verbatim>\<open>undefined\<close>. Play times are minute counts.
\<close>

record game =
  appid :: int
  name :: string
  playtime_forever :: int
  img_icon_url :: string
  playtime_2weeks :: "int option"

text \<open>
  \<^verbatim>\<open>v || 0\<close> on an optional number: \<^verbatim>\<open>undefined\<close> and \<^verbatim>\<open>0\<close> are falsy.
\<close>

definition or0 :: "int option \<Rightarrow> int" where
  "or0 v = (case v of None \<Rightarrow> 0 | Some n \<Rightarrow> (if n = 0 then 0 else n))"

section \<open>Library aggregation (the \<^verbatim>\<open>games\<close> query of \<^verbatim>\<open>App.tsx\<close>)\<close>

text \<open>
  \<^verbatim>\<open>new Map(recent.map(g => [g.appid, g]))\<close>: the entries are set in list order, so
  a later entry with the same id replaces an earlier one.
\<close>

definition recentGamesMap :: "game list \<Rightarrow> int \<rightharpoonup> game" where
  "recentGamesMap recent = foldl (\<lambda>m g. m(appid g \<mapsto> g)) Map.empty recent"

text \<open>
  \<^verbatim>\<open>Array.prototype.findIndex\<close>; \<open>None\<close> stands for the result \<^verbatim>\<open>-1\<close>.
\<close>

fun findIndex :: "('a \<Rightarrow> bool) \<Rightarrow> 'a list \<Rightarrow> nat option" where
  "findIndex p [] = None"
| "findIndex p (x # xs) =
     (if p x then Some 0 else map_option Suc (findIndex p xs))"

definition spacewar :: "game option \<Rightarrow> game" where
  "spacewar recentSpacewar =
     \<lparr> appid = 480,
       name = ''Spacewar'',
       playtime_forever = or0 (map_option playtime_forever recentSpacewar),
       img_icon_url = '''',
       playtime_2weeks = Some (or0 (Option.bind recentSpacewar playtime_2weeks)) \<rparr>"

definition rename480 :: "game \<Rightarrow> game" where
  "rename480 g = (if appid g = 480 then g\<lparr>name := ''ELDEN RING COOP''\<rparr> else g)"

definition games_queryFn :: "game list \<Rightarrow> game list \<Rightarrow> game list" where
  "games_queryFn owned recent =
     (let rawGames = owned;
          recentSpacewar = recentGamesMap recent 480;
          ownedSpacewarIndex = findIndex (\<lambda>g. appid g = 480) rawGames;
          rawGames' =
            (case ownedSpacewarIndex of
               Some i \<Rightarrow>
                 (case recentSpacewar of
                    Some r \<Rightarrow>
                      rawGames[i := (rawGames ! i)
                        \<lparr> playtime_forever :=
                            max (playtime_forever (rawGames ! i)) (playtime_forever r),
                          playtime_2weeks := playtime_2weeks r \<rparr>]
                  | None \<Rightarrow> rawGames)
             | None \<Rightarrow> rawGames @ [spacewar recentSpacewar])
      in map rename480 rawGames')"

section \<open>JavaScript numbers and \<^verbatim>\<open>Array.prototype.sort\<close>\<close>

text \<open>
  The values a comparator or \<^verbatim>\<open>parseFloat\<close> can produce: \<^verbatim>\<open>NaN\<close>, the two
  infinities and the finite numbers, the latter with their exact value (the rounding of
  doubles is not modelled; the sign of a difference of two doubles is the sign of the
  exact difference, which is all a comparator uses).
\<close>

datatype jsnum = NaN | NegInf | Finite rat | PosInf

fun js_minus :: "jsnum \<Rightarrow> jsnum \<Rightarrow> jsnum" where
  "js_minus NaN _ = NaN"
| "js_minus _ NaN = NaN"
| "js_minus (Finite a) (Finite b) = Finite (a - b)"
| "js_minus (Finite _) PosInf = NegInf"
| "js_minus (Finite _) NegInf = PosInf"
| "js_minus PosInf PosInf = NaN"
| "js_minus PosInf _ = PosInf"
| "js_minus NegInf NegInf = NaN"
| "js_minus NegInf _ = NegInf"

text \<open>\<^verbatim>\<open>v || 0\<close> on a number: \<^verbatim>\<open>NaN\<close> and \<^verbatim>\<open>0\<close> are falsy.\<close>

definition num_or0 :: "jsnum \<Rightarrow> jsnum" where
  "num_or0 v = (if v = NaN \<or> v = Finite 0 then Finite 0 else v)"

definition of_int_num :: "int \<Rightarrow> jsnum" where
  "of_int_num i = Finite (of_int i)"


text \<open>
  \<^verbatim>\<open>SortCompare\<close> reads a comparator result \<^verbatim>\<open>v\<close> as \<^verbatim>\<open>+0\<close> when it is \<^verbatim>\<open>NaN\<close>;
  the first argument may stay in front of the second when \<^verbatim>\<open>v \<le> 0\<close>.
\<close>

fun not_after :: "jsnum \<Rightarrow> bool" where
  "not_after NaN = True"
| "not_after NegInf = True"
| "not_after (Finite r) = (r \<le> 0)"
| "not_after PosInf = False"

text \<open>
  \<^verbatim>\<open>Array.prototype.sort(comparefn)\<close> is stable: with a consistent comparator the
  result is the one ordering that is sorted and keeps equal elements in their input
  order. That ordering is what a stable insertion sort computes.
\<close>

fun insert_sorted :: "('a \<Rightarrow> 'a \<Rightarrow> jsnum) \<Rightarrow> 'a \<Rightarrow> 'a list \<Rightarrow> 'a list" where
  "insert_sorted cmp x [] = [x]"
| "insert_sorted cmp x (y # ys) =
     (if not_after (cmp x y) then x # y # ys else y # insert_sorted cmp x ys)"

fun js_sort :: "('a \<Rightarrow> 'a \<Rightarrow> jsnum) \<Rightarrow> 'a list \<Rightarrow> 'a list" where
  "js_sort cmp [] = []"
| "js_sort cmp (x # xs) = insert_sorted cmp x (js_sort cmp xs)"

section \<open>Vault view (\<^verbatim>\<open>filteredAndSortedGames\<close>)\<close>

text \<open>
  The filter and sort keys of the router's search parameters:
  \<^verbatim>\<open>'all' | 'mastered' | 'blacklisted' | 'active' | 'hunter'\<close> and
  \<^verbatim>\<open>'playtime' | 'name' | 'recency'\<close>.
\<close>

datatype vault_filter = F_all | F_mastered | F_blacklisted | F_active | F_hunter

datatype vault_sort = S_playtime | S_name | S_recency

text \<open>\<^verbatim>\<open>String.prototype.includes\<close>: the argument occurs as a contiguous run.\<close>

fun starts_with :: "'a list \<Rightarrow> 'a list \<Rightarrow> bool" where
  "starts_with s [] = True"
| "starts_with [] (p # ps) = False"
| "starts_with (c # cs) (p # ps) = (c = p \<and> starts_with cs ps)"

fun str_includes :: "'a list \<Rightarrow> 'a list \<Rightarrow> bool" where
  "str_includes [] q = (q = [])"
| "str_includes (c # cs) q = (starts_with (c # cs) q \<or> str_includes cs q)"

text \<open>
  The status stage of \<^verbatim>\<open>App.tsx\<close>: an \<^verbatim>\<open>if / else if\<close> chain on \<^verbatim>\<open>vaultFilter\<close>;
  \<^verbatim>\<open>'all'\<close> matches no branch and leaves the list as it is.
  \<^verbatim>\<open>xs.includes(g.appid)\<close> on an id array is list membership.
\<close>

definition status_filter ::
  "vault_filter \<Rightarrow> int list \<Rightarrow> int list \<Rightarrow> int list \<Rightarrow> game list \<Rightarrow> game list" where
  "status_filter vaultFilter masteredAppIds blacklist hunterTargets result =
     (if vaultFilter = F_mastered then
        filter (\<lambda>g. appid g \<in> set masteredAppIds) result
      else if vaultFilter = F_blacklisted then
        filter (\<lambda>g. appid g \<in> set blacklist) result
      else if vaultFilter = F_active then
        filter (\<lambda>g. or0 (playtime_2weeks g) > 0) result
      else if vaultFilter = F_hunter then
        filter (\<lambda>g. appid g \<in> set hunterTargets) result
      else result)"

text \<open>
  The comparator of the final sort. \<^verbatim>\<open>localeCompare\<close> depends on the platform's
  collation and is a parameter.
\<close>

definition vault_compare ::
  "(string \<Rightarrow> string \<Rightarrow> int) \<Rightarrow> vault_sort \<Rightarrow> game \<Rightarrow> game \<Rightarrow> jsnum" where
  "vault_compare localeCompare vaultSortBy a b =
     (if vaultSortBy = S_name then of_int_num (localeCompare (name a) (name b))
      else if vaultSortBy = S_recency then
        of_int_num (or0 (playtime_2weeks b) - or0 (playtime_2weeks a))
      else of_int_num (playtime_forever b - playtime_forever a))"

text \<open>
  The whole memo: text filter, status filter, sort. \<^verbatim>\<open>toLowerCase\<close> is the
  platform's and a parameter.
\<close>

definition filteredAndSortedGames ::
  "(string \<Rightarrow> string) \<Rightarrow> (string \<Rightarrow> string \<Rightarrow> int) \<Rightarrow> game list \<Rightarrow> string \<Rightarrow>
   vault_filter \<Rightarrow> vault_sort \<Rightarrow> int list \<Rightarrow> int list \<Rightarrow> int list \<Rightarrow> game list" where
  "filteredAndSortedGames toLowerCase localeCompare games searchQuery vaultFilter vaultSortBy
       masteredAppIds blacklist hunterTargets =
     (let result = filter (\<lambda>g. str_includes (toLowerCase (name g)) (toLowerCase searchQuery)) games;
          result = status_filter vaultFilter masteredAppIds blacklist hunterTargets result
      in js_sort (vault_compare localeCompare vaultSortBy) result)"

section \<open>Achievements: the upstream fragments\<close>

text \<open>
  The three upstream fragments, typed by the fields the code reads.
  \<^verbatim>\<open>playerstats\<close> is the object under \<^verbatim>\<open>achievements?.playerstats\<close>; the schema
  fragment is the list under \<^verbatim>\<open>schema?.game?.availableGameStats?.achievements\<close> and
  the global fragment the list under
  \<^verbatim>\<open>globalStats?.achievementpercentages?.achievements\<close>. \<open>None\<close> is a link of the
  optional chain that is \<^verbatim>\<open>undefined\<close>. The \<^verbatim>\<open>name\<close> fields of the schema and of
  the global entries are \<open>sa_name\<close> and \<open>ga_name\<close>.
\<close>

record player_achievement =
  apiname :: string
  achieved :: int

record playerstats =
  success :: "bool option"
  error :: "string option"
  achievements :: "player_achievement list option"

record schema_achievement =
  sa_name :: string
  displayName :: "string option"
  description :: "string option"
  icon :: "string option"
  icongray :: "string option"

text \<open>
  Upstream sends \<^verbatim>\<open>percent\<close> as a number or as a string; it may be missing.
\<close>

datatype percent_value = PNumber rat | PString string | PMissing

record global_achievement =
  ga_name :: string
  percent :: percent_value

record achievements_body =
  body_playerstats :: "playerstats option"
  body_schema :: "schema_achievement list option"
  body_globalStats :: "global_achievement list option"

section \<open>Achievements: the gateway route \<^verbatim>\<open>GET /api/achievements/:steamid/:appid\<close>\<close>

text \<open>
  A rejected request carries an error whose \<^verbatim>\<open>response.data\<close> is the upstream error
  body. \<open>response_playerstats\<close> is \<^verbatim>\<open>reason?.response?.data?.playerstats\<close>: when the
  body is missing, \<^verbatim>\<open>errorReason\<close> is the message string, whose \<^verbatim>\<open>playerstats\<close> is
  \<^verbatim>\<open>undefined\<close> as well.
\<close>

record axios_error =
  response_playerstats :: "playerstats option"
  message :: string

datatype 'a settled = Fulfilled 'a | Rejected axios_error

definition is_private_profile :: "axios_error \<Rightarrow> bool" where
  "is_private_profile reason =
     (Option.bind (response_playerstats reason) error = Some ''Profile is not public'')"

definition fulfilled_or :: "'a settled \<Rightarrow> 'a \<Rightarrow> 'a" where
  "fulfilled_or r d = (case r of Fulfilled v \<Rightarrow> v | Rejected _ \<Rightarrow> d)"

text \<open>
  The route. \<^verbatim>\<open>checkApiKey\<close> answers with status 401 when no key is configured.
\<close>

definition get_achievements ::
  "string \<Rightarrow> playerstats option settled \<Rightarrow> schema_achievement list option settled \<Rightarrow>
   global_achievement list option settled \<Rightarrow> nat + achievements_body" where
  "get_achievements STEAM_API_KEY achResponse schemaResponse globalStatsResponse =
     (if STEAM_API_KEY = '''' then Inl 401
      else
        (case achResponse of
           Rejected reason \<Rightarrow>
             if is_private_profile reason then
               Inr \<lparr> body_playerstats =
                       Some \<lparr> success = Some False, error = Some ''Private Profile'',
                              achievements = None \<rparr>,
                     body_schema = fulfilled_or schemaResponse (Some []),
                     body_globalStats = fulfilled_or globalStatsResponse (Some []) \<rparr>
             else
               Inr \<lparr> body_playerstats =
                       Some \<lparr> success = Some False, error = None, achievements = Some [] \<rparr>,
                     body_schema = fulfilled_or schemaResponse (Some []),
                     body_globalStats = fulfilled_or globalStatsResponse (Some []) \<rparr>
         | Fulfilled data \<Rightarrow>
             Inr \<lparr> body_playerstats = data,
                   body_schema = fulfilled_or schemaResponse (Some []),
                   body_globalStats = fulfilled_or globalStatsResponse (Some []) \<rparr>))"

section \<open>Achievements: the \<^verbatim>\<open>useAchievements\<close> hook\<close>

text \<open>
  \<^verbatim>\<open>parseFloat\<close>: leading white space is dropped, then the longest prefix that is a
  decimal literal (sign, \<^verbatim>\<open>Infinity\<close> or digits with an optional fraction and exponent) is
  read; without such a prefix the result is \<^verbatim>\<open>NaN\<close>. The value is the exact decimal
  value. Strings are ASCII.
\<close>

definition is_digit :: "char \<Rightarrow> bool" where
  "is_digit c = (48 \<le> (of_char c :: nat) \<and> (of_char c :: nat) \<le> 57)"

definition is_space :: "char \<Rightarrow> bool" where
  "is_space c = ((of_char c :: nat) \<in> {9, 10, 11, 12, 13, 32})"

definition digits_value :: "string \<Rightarrow> nat" where
  "digits_value ds = foldl (\<lambda>n c. 10 * n + ((of_char c :: nat) - 48)) 0 ds"

definition exponent_part :: "string \<Rightarrow> int" where
  "exponent_part s =
     (case s of
        [] \<Rightarrow> 0
      | e # r \<Rightarrow>
          if e = CHR ''e'' \<or> e = CHR ''E'' then
            (case r of
               [] \<Rightarrow> 0
             | sg # r' \<Rightarrow>
                 if sg = CHR ''-'' then
                   (if takeWhile is_digit r' = [] then 0
                    else - int (digits_value (takeWhile is_digit r')))
                 else if sg = CHR ''+'' then int (digits_value (takeWhile is_digit r'))
                 else int (digits_value (takeWhile is_digit r)))
          else 0)"

definition scale10 :: "rat \<Rightarrow> int \<Rightarrow> rat" where
  "scale10 v e = (if 0 \<le> e then v * 10 ^ nat e else v / 10 ^ nat (- e))"

definition unsigned_literal :: "string \<Rightarrow> jsnum" where
  "unsigned_literal s =
     (if starts_with s ''Infinity'' then PosInf
      else
        (let ds = takeWhile is_digit s; r = dropWhile is_digit s
         in case r of
              [] \<Rightarrow> (if ds = [] then NaN else Finite (of_nat (digits_value ds)))
            | c # r' \<Rightarrow>
                if c = CHR ''.'' then
                  (let fs = takeWhile is_digit r'; r'' = dropWhile is_digit r'
                   in if ds = [] \<and> fs = [] then NaN
                      else Finite (scale10
                             (of_nat (digits_value ds) + of_nat (digits_value fs) / 10 ^ length fs)
                             (exponent_part r'')))
                else if ds = [] then NaN
                else Finite (scale10 (of_nat (digits_value ds)) (exponent_part r))))"

fun js_negate :: "jsnum \<Rightarrow> jsnum" where
  "js_negate NaN = NaN"
| "js_negate NegInf = PosInf"
| "js_negate (Finite r) = Finite (- r)"
| "js_negate PosInf = NegInf"

definition parseFloat :: "string \<Rightarrow> jsnum" where
  "parseFloat s =
     (case dropWhile is_space s of
        [] \<Rightarrow> NaN
      | c # r \<Rightarrow>
          if c = CHR ''-'' then js_negate (unsigned_literal r)
          else if c = CHR ''+'' then unsigned_literal r
          else unsigned_literal (c # r))"

text \<open>
  \<^verbatim>\<open>AchievementWithLink\<close>: the player record spread into a new object, with the
  schema's display data, the global percentage and the stored video link.
\<close>

record achievement_with_link =
  w_apiname :: string
  w_achieved :: int
  w_name :: string
  w_description :: "string option"
  w_icon :: "string option"
  w_icongray :: "string option"
  w_percent :: jsnum
  videoUrl :: string

text \<open>
  \<^verbatim>\<open>typeof global?.percent === 'number' ? global.percent : parseFloat(global?.percent || '0')\<close>
\<close>

definition merged_percent :: "global_achievement option \<Rightarrow> jsnum" where
  "merged_percent global =
     (case global of
        None \<Rightarrow> parseFloat ''0''
      | Some ga \<Rightarrow>
          (case percent ga of
             PNumber r \<Rightarrow> Finite r
           | PString s \<Rightarrow> parseFloat (if s = '''' then ''0'' else s)
           | PMissing \<Rightarrow> parseFloat ''0''))"

definition str_or :: "string option \<Rightarrow> string \<Rightarrow> string" where
  "str_or v d = (case v of None \<Rightarrow> d | Some s \<Rightarrow> (if s = '''' then d else s))"

definition merge_achievement ::
  "schema_achievement list \<Rightarrow> global_achievement list \<Rightarrow> (string \<rightharpoonup> string) \<Rightarrow>
   player_achievement \<Rightarrow> achievement_with_link" where
  "merge_achievement schemaAchievements globalStats storedLinks pa =
     (let schema = List.find (\<lambda>sa. sa_name sa = apiname pa) schemaAchievements;
          global = List.find (\<lambda>ga. ga_name ga = apiname pa) globalStats
      in \<lparr> w_apiname = apiname pa,
           w_achieved = achieved pa,
           w_name = str_or (Option.bind schema displayName) (apiname pa),
           w_description = Option.bind schema description,
           w_icon = Option.bind schema icon,
           w_icongray = Option.bind schema icongray,
           w_percent = merged_percent global,
           videoUrl = str_or (storedLinks (apiname pa)) '''' \<rparr>)"

text \<open>The comparator of \<^verbatim>\<open>merged.sort\<close>.\<close>

definition compare_achievements :: "achievement_with_link \<Rightarrow> achievement_with_link \<Rightarrow> jsnum" where
  "compare_achievements a b =
     (if w_achieved a \<noteq> w_achieved b then of_int_num (w_achieved a - w_achieved b)
      else js_minus (num_or0 (w_percent b)) (num_or0 (w_percent a)))"

definition sort_achievements :: "achievement_with_link list \<Rightarrow> achievement_with_link list" where
  "sort_achievements merged = js_sort compare_achievements merged"

text \<open>
  The state of the hook and one run of \<^verbatim>\<open>fetchAchievements\<close>. The response is \<open>None\<close>
  when \<^verbatim>\<open>axios.get\<close> throws. \<open>storedLinks\<close> is the object \<^verbatim>\<open>getStoredLinks\<close> returned,
  read as a map from achievement name to link.
\<close>

record hook_state =
  hs_achievements :: "achievement_with_link list"
  hs_loading :: bool
  hs_error :: "string option"

definition list_or_empty :: "'a list option \<Rightarrow> 'a list" where
  "list_or_empty v = (case v of None \<Rightarrow> [] | Some xs \<Rightarrow> xs)"

definition fetchAchievements ::
  "achievements_body option \<Rightarrow> (string \<rightharpoonup> string) \<Rightarrow> hook_state \<Rightarrow> hook_state" where
  "fetchAchievements res storedLinks st =
     (case res of
        None \<Rightarrow> st\<lparr> hs_loading := False, hs_error := Some ''Failed to load achievements'' \<rparr>
      | Some body \<Rightarrow>
          if str_or (Option.bind (body_playerstats body) error) '''' \<noteq> '''' then
            \<lparr> hs_achievements = [],
              hs_loading = False,
              hs_error = Option.bind (body_playerstats body) error \<rparr>
          else
            (let playerAchievements =
                   list_or_empty (Option.bind (body_playerstats body) achievements);
                 schemaAchievements = list_or_empty (body_schema body);
                 globalStats = list_or_empty (body_globalStats body);
                 merged = map (merge_achievement schemaAchievements globalStats storedLinks)
                            playerAchievements
             in \<lparr> hs_achievements = sort_achievements merged,
                  hs_loading = False,
                  hs_error = None \<rparr>))"

section \<open>Mastery classifier\<close>

text \<open>
  \<^verbatim>\<open>[...games].sort((a, b) => b.playtime_forever - a.playtime_forever)\<close>
\<close>

definition by_playtime :: "game \<Rightarrow> game \<Rightarrow> jsnum" where
  "by_playtime a b = of_int_num (playtime_forever b - playtime_forever a)"


definition total_count :: "playerstats option \<Rightarrow> nat" where
  "total_count ps = length (list_or_empty (Option.bind ps achievements))"

definition achieved_count :: "playerstats option \<Rightarrow> nat" where
  "achieved_count ps =
     length (filter (\<lambda>a. achieved a = 1) (list_or_empty (Option.bind ps achievements)))"

text \<open>
  \<^verbatim>\<open>achieved / total\<close>. The quotient of two array lengths is compared with \<^verbatim>\<open>1\<close> and
  \<^verbatim>\<open>0.5\<close> only, where the double quotient and the exact one agree.
\<close>

definition ratio :: "playerstats option \<Rightarrow> rat" where
  "ratio ps = of_nat (achieved_count ps) / of_nat (total_count ps)"







section \<open>Persisted local state\<close>

text \<open>
  \<^verbatim>\<open>localStorage\<close>: keys with their values, in the order of \<^verbatim>\<open>localStorage.key(i)\<close>.
  \<^verbatim>\<open>getItem\<close> gives \<^verbatim>\<open>null\<close> (\<open>None\<close>) for a missing key.
\<close>

type_synonym storage = "(string \<times> string) list"

definition getItem :: "storage \<Rightarrow> string \<Rightarrow> string option" where
  "getItem ls key = map_of ls key"

fun setItem :: "storage \<Rightarrow> string \<Rightarrow> string \<Rightarrow> storage" where
  "setItem [] key v = [(key, v)]"
| "setItem ((k, w) # ls) key v =
     (if k = key then (k, v) # ls else (k, w) # setItem ls key v)"

text \<open>
  \<^verbatim>\<open>JSON.parse\<close> is the platform's and a parameter of every loader, read at the type
  the loader declares; it throws a \<^verbatim>\<open>SyntaxError\<close> on a text that is not JSON.
\<close>

datatype js_error = SyntaxError

fun decimal :: "nat \<Rightarrow> string" where
  "decimal n =
     (if n < 10 then [char_of (48 + n)]
      else decimal (n div 10) @ [char_of (48 + n mod 10)])"

declare decimal.simps [simp del]

text \<open>A whole number in a template literal.\<close>

definition number_to_string :: "int \<Rightarrow> string" where
  "number_to_string i = (if i < 0 then CHR ''-'' # decimal (nat (- i)) else decimal (nat i))"

text \<open>
  The blacklist initializer: \<^verbatim>\<open>saved ? JSON.parse(saved) : []\<close>. The empty string is
  falsy. \<open>Inl\<close> is the error thrown out of the initializer.
\<close>

definition blacklist_init ::
  "(string \<Rightarrow> js_error + int list) \<Rightarrow> storage \<Rightarrow> js_error + int list" where
  "blacklist_init JSON_parse ls =
     (case getItem ls ''vanguard-blacklist'' of
        None \<Rightarrow> Inr []
      | Some saved \<Rightarrow> (if saved = '''' then Inr [] else JSON_parse saved))"

text \<open>\<^verbatim>\<open>try { ... } catch { ... }\<close>\<close>

definition try_catch :: "'e + 'a \<Rightarrow> ('e \<Rightarrow> 'e + 'a) \<Rightarrow> 'e + 'a" where
  "try_catch body handler = (case body of Inl e \<Rightarrow> handler e | Inr v \<Rightarrow> Inr v)"

text \<open>
  \<^verbatim>\<open>getStoredLinks\<close>: the text parsed is \<^verbatim>\<open>getItem(key) || '{}'\<close>.
\<close>

definition getStoredLinks ::
  "(string \<Rightarrow> js_error + (string \<rightharpoonup> string)) \<Rightarrow> storage \<Rightarrow> int \<Rightarrow>
   js_error + (string \<rightharpoonup> string)" where
  "getStoredLinks JSON_parse ls appId =
     try_catch
       (JSON_parse (str_or (getItem ls (''vanguard-videos-'' @ number_to_string appId)) ''{}''))
       (\<lambda>e. Inr Map.empty)"

text \<open>
  \<^verbatim>\<open>parseInt\<close> without a radix: white space, a sign, an optional \<^verbatim>\<open>0x\<close>, then the
  longest run of digits; \<^verbatim>\<open>NaN\<close> without a digit.
\<close>

definition digit_of :: "char \<Rightarrow> nat option" where
  "digit_of c =
     (let n = (of_char c :: nat)
      in if 48 \<le> n \<and> n \<le> 57 then Some (n - 48)
         else if 97 \<le> n \<and> n \<le> 102 then Some (n - 87)
         else if 65 \<le> n \<and> n \<le> 70 then Some (n - 55)
         else None)"

definition radix_digit :: "nat \<Rightarrow> char \<Rightarrow> bool" where
  "radix_digit radix c = (case digit_of c of None \<Rightarrow> False | Some d \<Rightarrow> d < radix)"

definition radix_value :: "nat \<Rightarrow> string \<Rightarrow> nat" where
  "radix_value radix ds = foldl (\<lambda>n c. radix * n + the (digit_of c)) 0 ds"

definition unsigned_int :: "string \<Rightarrow> jsnum" where
  "unsigned_int u =
     (let radix = (if starts_with u ''0x'' \<or> starts_with u ''0X'' then 16 else 10);
          v = (if radix = 16 then drop 2 u else u);
          ds = takeWhile (radix_digit radix) v
      in if ds = [] then NaN else Finite (of_nat (radix_value radix ds)))"

definition parseInt :: "string \<Rightarrow> jsnum" where
  "parseInt s =
     (case dropWhile is_space s of
        [] \<Rightarrow> NaN
      | c # r \<Rightarrow>
          if c = CHR ''-'' then js_negate (unsigned_int r)
          else if c = CHR ''+'' then unsigned_int r
          else unsigned_int (c # r))"

text \<open>
  The facet metadata the gateway's store route sends and the scan caches, with the
  fields as the hooks read them: \<open>metacritic\<close> is \<^verbatim>\<open>metacritic?.score\<close>.
\<close>

record genre =
  genre_id :: string
  genre_description :: string

record store_meta =
  genres :: "genre list option"
  categories :: "genre list option"
  metacritic :: "int option"
  release_date :: "string option"

text \<open>
  The \<^verbatim>\<open>gameMetadata\<close> initializer: every key with the prefix is parsed inside its own
  \<^verbatim>\<open>try\<close>; a value that does not parse leaves no entry. \<^verbatim>\<open>key.replace(prefix, '')\<close>
  on a key that starts with the prefix drops it. The object is keyed by the number
  \<^verbatim>\<open>parseInt\<close> returned.
\<close>

fun gameMetadata_loop ::
  "(string \<Rightarrow> js_error + store_meta) \<Rightarrow> storage \<Rightarrow> (jsnum \<rightharpoonup> store_meta) \<Rightarrow>
   js_error + (jsnum \<rightharpoonup> store_meta)" where
  "gameMetadata_loop JSON_parse [] meta = Inr meta"
| "gameMetadata_loop JSON_parse ((key, v) # rest) meta =
     (if starts_with key ''vanguard-meta-'' then
        (let appId = parseInt (drop (length ''vanguard-meta-'') key)
         in case try_catch
                   (case JSON_parse v of Inl e \<Rightarrow> Inl e | Inr m \<Rightarrow> Inr (meta(appId \<mapsto> m)))
                   (\<lambda>e. Inr meta) of
              Inl e \<Rightarrow> Inl e
            | Inr meta' \<Rightarrow> gameMetadata_loop JSON_parse rest meta')
      else gameMetadata_loop JSON_parse rest meta)"

definition gameMetadata_init ::
  "(string \<Rightarrow> js_error + store_meta) \<Rightarrow> storage \<Rightarrow> js_error + (jsnum \<rightharpoonup> store_meta)" where
  "gameMetadata_init JSON_parse ls = gameMetadata_loop JSON_parse ls Map.empty"

section \<open>Genre facet scan (\<^verbatim>\<open>scanLibrary\<close>)\<close>

text \<open>
  What the scan takes from outside: \<^verbatim>\<open>JSON.parse\<close> and \<^verbatim>\<open>JSON.stringify\<close> at the
  types they are used at, and the request to the store route, \<open>None\<close> when it throws.
\<close>

record scan_env =
  env_parse :: "string \<Rightarrow> js_error + store_meta"
  env_stringify :: "store_meta \<Rightarrow> string"
  env_stringify_genres :: "string list \<Rightarrow> string"
  env_get :: "int \<Rightarrow> store_meta option"

text \<open>
  The component state the scan reads and writes, with \<^verbatim>\<open>localStorage\<close>.
  \<^verbatim>\<open>availableGenres\<close> is a \<^verbatim>\<open>Set\<close>: a list in insertion order without repetition.
\<close>

record scan_state =
  isScanning :: bool
  localStorage :: storage
  availableGenres :: "string list"
  gameMetadata :: "jsnum \<rightharpoonup> store_meta"

datatype outcome = Returned | Threw js_error

definition meta_key :: "int \<Rightarrow> string" where
  "meta_key gameId = ''vanguard-meta-'' @ number_to_string gameId"

text \<open>The truthiness of \<^verbatim>\<open>localStorage.getItem(key)\<close>.\<close>

definition has_item :: "storage \<Rightarrow> string \<Rightarrow> bool" where
  "has_item ls key = (str_or (getItem ls key) '''' \<noteq> '''')"

definition set_add :: "'a list \<Rightarrow> 'a \<Rightarrow> 'a list" where
  "set_add xs x = (if x \<in> set xs then xs else xs @ [x])"

text \<open>\<^verbatim>\<open>meta.genres?.forEach((g) => newGenres.add(g.description))\<close>\<close>

definition add_genres :: "store_meta \<Rightarrow> string list \<Rightarrow> string list" where
  "add_genres meta newGenres =
     foldl set_add newGenres (map genre_description (list_or_empty (genres meta)))"

text \<open>
  \<^verbatim>\<open>processGame\<close> on the state and the local set \<^verbatim>\<open>newGenres\<close>. The cached branch
  parses outside any \<^verbatim>\<open>try\<close>: its error is returned beside the state. A failed request
  is caught and changes nothing.
\<close>

definition processGame ::
  "scan_env \<Rightarrow> int \<Rightarrow> scan_state \<times> string list \<Rightarrow> (scan_state \<times> string list) \<times> js_error option" where
  "processGame env gameId sg =
     (let st = fst sg; newGenres = snd sg; key = meta_key gameId
      in if has_item (localStorage st) key then
           (case env_parse env (str_or (getItem (localStorage st) key) '''') of
              Inl e \<Rightarrow> ((st, newGenres), Some e)
            | Inr meta \<Rightarrow> ((st, add_genres meta newGenres), None))
         else
           (case env_get env gameId of
              None \<Rightarrow> ((st, newGenres), None)
            | Some meta \<Rightarrow>
                ((st\<lparr>localStorage := setItem (localStorage st) key (env_stringify env meta)\<rparr>,
                  add_genres meta newGenres), None)))"

text \<open>
  One chunk: \<^verbatim>\<open>Promise.all(slice.map(g => processGame(g.appid)))\<close>. Every member of
  the chunk is started; the first error rejects the whole. The overlapping requests of a
  chunk are run in list order.
\<close>

fun process_chunk ::
  "scan_env \<Rightarrow> int list \<Rightarrow> scan_state \<times> string list \<Rightarrow> (scan_state \<times> string list) \<times> js_error option" where
  "process_chunk env [] sg = (sg, None)"
| "process_chunk env (gameId # rest) sg =
     (case processGame env gameId sg of
        (sg', err) \<Rightarrow>
          (case process_chunk env rest sg' of
             (sg'', err') \<Rightarrow> (sg'', (case err of None \<Rightarrow> err' | Some e \<Rightarrow> Some e))))"

text \<open>
  \<^verbatim>\<open>for (let i = 0; i < targetGames.length; i += chunk)\<close> with
  \<^verbatim>\<open>targetGames.slice(i, i + chunk)\<close>.
\<close>

function chunks_of :: "nat \<Rightarrow> 'a list \<Rightarrow> 'a list list" where
  "chunks_of n xs = (if n = 0 \<or> xs = [] then [] else take n xs # chunks_of n (drop n xs))"
  by pat_completeness auto
termination
  by (relation "measure (\<lambda>(n, xs). length xs)") auto

declare chunks_of.simps [simp del]

text \<open>
  The chunk loop. It returns the state, \<^verbatim>\<open>newGenres\<close>, the ids \<^verbatim>\<open>processGame\<close> was
  called with so far, and the error that ended the loop, if any.
\<close>

fun scan_chunks ::
  "scan_env \<Rightarrow> int list list \<Rightarrow> scan_state \<times> string list \<Rightarrow> int list \<Rightarrow>
   (scan_state \<times> string list) \<times> int list \<times> js_error option" where
  "scan_chunks env [] sg processed = (sg, processed, None)"
| "scan_chunks env (c # cs) sg processed =
     (case process_chunk env c sg of
        (sg', Some e) \<Rightarrow> (sg', processed @ c, Some e)
      | (sg', None) \<Rightarrow> scan_chunks env cs sg' (processed @ c))"

text \<open>
  The refresh of the metadata state after the loop:
  \<^verbatim>\<open>meta[g.appid] = JSON.parse(localStorage.getItem(key)!)\<close> for every target with a
  stored entry, outside any \<^verbatim>\<open>try\<close>.
\<close>

fun refresh_meta ::
  "scan_env \<Rightarrow> storage \<Rightarrow> game list \<Rightarrow> (jsnum \<rightharpoonup> store_meta) \<Rightarrow>
   js_error + (jsnum \<rightharpoonup> store_meta)" where
  "refresh_meta env ls [] meta = Inr meta"
| "refresh_meta env ls (g # gs) meta =
     (if has_item ls (meta_key (appid g)) then
        (case env_parse env (str_or (getItem ls (meta_key (appid g))) '''') of
           Inl e \<Rightarrow> Inl e
         | Inr m \<Rightarrow> refresh_meta env ls gs (meta(of_int_num (appid g) \<mapsto> m)))
      else refresh_meta env ls gs meta)"

definition scan_begin :: "scan_state \<Rightarrow> scan_state" where
  "scan_begin st = st\<lparr>isScanning := True\<rparr>"

definition targetGames :: "scan_state \<Rightarrow> game list \<Rightarrow> game list" where
  "targetGames st games =
     (let unprofiledGames = filter (\<lambda>g. \<not> has_item (localStorage st) (meta_key (appid g))) games
      in take 50 unprofiledGames)"

text \<open>
  One invocation of \<^verbatim>\<open>scanLibrary\<close>: the state it leaves, the ids it processed and
  how it ended. A thrown error leaves the flag set.
\<close>

definition scanLibrary ::
  "scan_env \<Rightarrow> scan_state \<Rightarrow> game list \<Rightarrow> scan_state \<times> int list \<times> outcome" where
  "scanLibrary env st games =
     (if isScanning st then (st, [], Returned)
      else
        (let targets = targetGames st games
         in case scan_chunks env (chunks_of 5 (map appid targets))
                   (scan_begin st, availableGenres st) [] of
              ((st1, newGenres), processed, Some e) \<Rightarrow> (st1, processed, Threw e)
            | ((st1, newGenres), processed, None) \<Rightarrow>
                (let st2 = st1\<lparr> availableGenres := newGenres,
                                localStorage := setItem (localStorage st1) ''vanguard-genres''
                                                  (env_stringify_genres env newGenres) \<rparr>
                 in case refresh_meta env (localStorage st2) targets (gameMetadata st) of
                      Inl e \<Rightarrow> (st2, processed, Threw e)
                    | Inr meta \<Rightarrow>
                        (st2\<lparr>gameMetadata := meta, isScanning := False\<rparr>, processed, Returned))))"

section \<open>Vault view of the \<^verbatim>\<open>useVault\<close> hook\<close>

text \<open>
  The hook's filter type is \<^verbatim>\<open>'all' | 'mastered' | 'blacklisted' | 'active'\<close>: it has
  no hunter filter and takes no hunter set. Its sort keys are
  \<^verbatim>\<open>'playtime' | 'name' | 'recency' | 'size' | 'metacritic' | 'release'\<close>.
\<close>

datatype useVault_filter = V_all | V_mastered | V_blacklisted | V_active

datatype useVault_sort = V_playtime | V_name | V_recency | V_size | V_metacritic | V_release

definition useVault_status_filter ::
  "useVault_filter \<Rightarrow> int list \<Rightarrow> int list \<Rightarrow> game list \<Rightarrow> game list" where
  "useVault_status_filter vaultFilter masteredAppIds blacklist result =
     (if vaultFilter = V_mastered then
        filter (\<lambda>g. appid g \<in> set masteredAppIds) result
      else if vaultFilter = V_blacklisted then
        filter (\<lambda>g. appid g \<in> set blacklist) result
      else if vaultFilter = V_active then
        filter (\<lambda>g. or0 (playtime_2weeks g) > 0) result
      else result)"

text \<open>
  The genre stage: with a selection, a game stays when its cached entry has a genre list
  that holds every selected genre.
\<close>

definition genre_filter ::
  "string list \<Rightarrow> (jsnum \<rightharpoonup> store_meta) \<Rightarrow> game list \<Rightarrow> game list" where
  "genre_filter selectedGenres metadata result =
     (if length selectedGenres > 0 then
        filter
          (\<lambda>g. case Option.bind (metadata (of_int_num (appid g))) genres of
                 None \<Rightarrow> False
               | Some gs \<Rightarrow>
                   list_all (\<lambda>sg. list_ex (\<lambda>mg. genre_description mg = sg) gs) selectedGenres)
          result
      else result)"

definition useVault_compare ::
  "(string \<Rightarrow> string \<Rightarrow> int) \<Rightarrow> useVault_sort \<Rightarrow> (jsnum \<rightharpoonup> store_meta) \<Rightarrow>
   game \<Rightarrow> game \<Rightarrow> jsnum" where
  "useVault_compare localeCompare vaultSortBy metadata a b =
     (if vaultSortBy = V_name then of_int_num (localeCompare (name a) (name b))
      else if vaultSortBy = V_recency then
        of_int_num (or0 (playtime_2weeks b) - or0 (playtime_2weeks a))
      else
        (let metaA = metadata (of_int_num (appid a));
             metaB = metadata (of_int_num (appid b))
         in if vaultSortBy = V_metacritic then
              of_int_num (or0 (Option.bind metaB metacritic) - or0 (Option.bind metaA metacritic))
            else if vaultSortBy = V_release then
              of_int_num (localeCompare (str_or (Option.bind metaB release_date) '''')
                                        (str_or (Option.bind metaA release_date) ''''))
            else of_int_num (playtime_forever b - playtime_forever a)))"

definition useVault_filteredAndSortedGames ::
  "(string \<Rightarrow> string) \<Rightarrow> (string \<Rightarrow> string \<Rightarrow> int) \<Rightarrow> game list \<Rightarrow> string \<Rightarrow>
   useVault_filter \<Rightarrow> useVault_sort \<Rightarrow> int list \<Rightarrow> int list \<Rightarrow> string list \<Rightarrow>
   (jsnum \<rightharpoonup> store_meta) \<Rightarrow> game list" where
  "useVault_filteredAndSortedGames toLowerCase localeCompare games searchQuery vaultFilter
       vaultSortBy masteredAppIds blacklist selectedGenres metadata =
     (let result = filter (\<lambda>g. str_includes (toLowerCase (name g)) (toLowerCase searchQuery)) games;
          result = useVault_status_filter vaultFilter masteredAppIds blacklist result;
          result = genre_filter selectedGenres metadata result
      in js_sort (useVault_compare localeCompare vaultSortBy metadata) result)"

section \<open>Facts about the aggregation\<close>

lemma recentGamesMap_snoc:
  "recentGamesMap (recent @ [g]) = (recentGamesMap recent)(appid g \<mapsto> g)"
  by (simp add: recentGamesMap_def)

lemma recentGamesMap_None:
  "recentGamesMap recent k = None \<longleftrightarrow> k \<notin> appid ` set recent"
  by (induction recent rule: rev_induct) (auto simp: recentGamesMap_snoc recentGamesMap_def)

lemma recentGamesMap_Some:
  "recentGamesMap recent k = Some r \<Longrightarrow> r \<in> set recent \<and> appid r = k"
  by (induction recent rule: rev_induct)
     (auto simp: recentGamesMap_snoc recentGamesMap_def split: if_splits)

lemma findIndex_None: "findIndex p xs = None \<longleftrightarrow> (\<forall>x \<in> set xs. \<not> p x)"
  by (induction xs) auto

lemma findIndex_Some:
  "findIndex p xs = Some i \<Longrightarrow> i < length xs \<and> p (xs ! i) \<and> (\<forall>j < i. \<not> p (xs ! j))"
proof (induction xs arbitrary: i)
  case Nil
  then show ?case by simp
next
  case (Cons x xs)
  show ?case
  proof (cases "p x")
    case True
    with Cons.prems show ?thesis by simp
  next
    case False
    with Cons.prems obtain k where k: "findIndex p xs = Some k" "i = Suc k"
      by auto
    from Cons.IH [OF k(1)] False k(2) show ?thesis
      by (auto simp: less_Suc_eq_0_disj)
  qed
qed

lemma find_findIndex:
  "findIndex p xs = Some i \<Longrightarrow> List.find p xs = Some (xs ! i)"
  by (induction xs arbitrary: i) (auto split: if_splits)

lemma findIndex_find:
  "List.find p xs = Some x \<Longrightarrow> \<exists>i. findIndex p xs = Some i \<and> xs ! i = x"
  by (induction xs) (auto split: if_splits)

lemma find_map_update:
  assumes "findIndex p xs = Some i" and "\<And>x. p (f x) = p x" and "p y"
  shows "List.find p (map f (xs[i := y])) = Some (f y)"
  using assms(1)
proof (induction xs arbitrary: i)
  case Nil
  then show ?case by simp
next
  case (Cons x xs)
  then show ?case
    using assms(2,3) by (cases "p x") auto
qed

lemma filter_map_update:
  assumes "i < length xs" and "\<not> q (xs ! i)" and "\<not> q y"
    and "\<And>x. q (f x) = q x" and "\<And>x. q x \<Longrightarrow> f x = x"
  shows "filter q (map f (xs[i := y])) = filter q xs"
  using assms(1,2)
proof (induction xs arbitrary: i)
  case Nil
  then show ?case by simp
next
  case (Cons x xs)
  have same: "filter q (map f xs) = filter q xs"
    using assms(4,5) by (induction xs) auto
  show ?case
  proof (cases i)
    case 0
    with Cons.prems assms(3,4) same show ?thesis by simp
  next
    case (Suc k)
    with Cons.prems Cons.IH [of k] assms(4,5) show ?thesis by auto
  qed
qed

lemma appid_rename480 [simp]: "appid (rename480 g) = appid g"
  by (simp add: rename480_def)

lemma rename480_other: "appid g \<noteq> 480 \<Longrightarrow> rename480 g = g"
  by (simp add: rename480_def)

lemma map_rename480_id:
  "480 \<notin> appid ` set gs \<Longrightarrow> map rename480 gs = gs"
  by (induction gs) (auto simp: rename480_def)

lemma filter_rename480:
  "filter (\<lambda>g. appid g \<noteq> 480) (map rename480 gs) = filter (\<lambda>g. appid g \<noteq> 480) gs"
  by (induction gs) (auto simp: rename480_def)

lemma name_rename480:
  "g \<in> set (map rename480 gs) \<Longrightarrow> appid g = 480 \<Longrightarrow> name g = ''ELDEN RING COOP''"
  by (auto simp: rename480_def split: if_splits)

lemma games_queryFn_absent:
  "480 \<notin> appid ` set owned \<Longrightarrow>
     games_queryFn owned recent
       = owned @ [(spacewar (recentGamesMap recent 480))\<lparr>name := ''ELDEN RING COOP''\<rparr>]"
proof -
  assume a: "480 \<notin> appid ` set owned"
  then have "findIndex (\<lambda>g. appid g = 480) owned = None"
    by (auto simp: findIndex_None)
  then show ?thesis
    using a by (simp add: games_queryFn_def Let_def map_rename480_id rename480_def spacewar_def)
qed

lemma games_queryFn_present_recent:
  assumes "findIndex (\<lambda>g. appid g = 480) owned = Some i"
    and "recentGamesMap recent 480 = Some r"
  shows "games_queryFn owned recent =
           map rename480 (owned[i := (owned ! i)
             \<lparr> playtime_forever := max (playtime_forever (owned ! i)) (playtime_forever r),
               playtime_2weeks := playtime_2weeks r \<rparr>])"
  using assms by (simp add: games_queryFn_def Let_def)

lemma games_queryFn_present_only:
  assumes "findIndex (\<lambda>g. appid g = 480) owned = Some i"
    and "recentGamesMap recent 480 = None"
  shows "games_queryFn owned recent = map rename480 owned"
  using assms by (simp add: games_queryFn_def Let_def)

lemma games_queryFn_others:
  "filter (\<lambda>g. appid g \<noteq> 480) (games_queryFn owned recent)
     = filter (\<lambda>g. appid g \<noteq> 480) owned"
proof (cases "findIndex (\<lambda>g. appid g = 480) owned")
  case None
  then have "480 \<notin> appid ` set owned"
    by (auto simp: findIndex_None)
  then show ?thesis
    by (simp add: games_queryFn_absent spacewar_def)
next
  case (Some i)
  note idx = findIndex_Some [OF Some]
  show ?thesis
  proof (cases "recentGamesMap recent 480")
    case None
    with Some show ?thesis
      by (simp add: games_queryFn_present_only filter_rename480)
  next
    case (Some r)
    have "filter (\<lambda>g. appid g \<noteq> 480) (map rename480 (owned[i := (owned ! i)
             \<lparr> playtime_forever := max (playtime_forever (owned ! i)) (playtime_forever r),
               playtime_2weeks := playtime_2weeks r \<rparr>]))
          = filter (\<lambda>g. appid g \<noteq> 480) owned"
      using idx by (intro filter_map_update) (auto simp: rename480_other)
    with Some \<open>findIndex (\<lambda>g. appid g = 480) owned = Some i\<close> show ?thesis
      by (simp add: games_queryFn_present_recent)
  qed
qed

lemma games_queryFn_renamed:
  "g \<in> set (games_queryFn owned recent) \<Longrightarrow> appid g = 480 \<Longrightarrow> name g = ''ELDEN RING COOP''"
  unfolding games_queryFn_def Let_def by (rule name_rename480)

lemma find_in_set: "List.find p xs = Some x \<Longrightarrow> x \<in> set xs \<and> p x"
  by (induction xs) (auto split: if_splits)

lemma games_queryFn_contains_480:
  "\<exists>g \<in> set (games_queryFn owned recent). appid g = 480"
proof (cases "findIndex (\<lambda>g. appid g = 480) owned")
  case None
  then have "480 \<notin> appid ` set owned"
    by (auto simp: findIndex_None)
  then show ?thesis
    by (simp add: games_queryFn_absent spacewar_def)
next
  case (Some i)
  note idx = findIndex_Some [OF Some]
  have "\<exists>y. List.find (\<lambda>g. appid g = 480) (games_queryFn owned recent) = Some y"
  proof (cases "recentGamesMap recent 480")
    case None
    have "List.find (\<lambda>g. appid g = 480) (map rename480 (owned[i := owned ! i]))
            = Some (rename480 (owned ! i))"
      using Some by (rule find_map_update) (simp_all add: idx)
    with None Some show ?thesis
      by (simp add: games_queryFn_present_only)
  next
    case (Some r)
    let ?y = "(owned ! i)
             \<lparr> playtime_forever := max (playtime_forever (owned ! i)) (playtime_forever r),
               playtime_2weeks := playtime_2weeks r \<rparr>"
    have "List.find (\<lambda>g. appid g = 480) (map rename480 (owned[i := ?y])) = Some (rename480 ?y)"
      using \<open>findIndex (\<lambda>g. appid g = 480) owned = Some i\<close>
      by (rule find_map_update) (simp_all add: idx)
    with Some \<open>findIndex (\<lambda>g. appid g = 480) owned = Some i\<close> show ?thesis
      by (simp add: games_queryFn_present_recent)
  qed
  then obtain y where "List.find (\<lambda>g. appid g = 480) (games_queryFn owned recent) = Some y"
    by blast
  then have "y \<in> set (games_queryFn owned recent) \<and> appid y = 480"
    by (rule find_in_set)
  then show ?thesis
    by blast
qed

section \<open>Facts about the sort\<close>

lemma mset_insert_sorted: "mset (insert_sorted cmp x xs) = add_mset x (mset xs)"
  by (induction xs) auto

lemma mset_js_sort: "mset (js_sort cmp xs) = mset xs"
  by (induction xs) (auto simp: mset_insert_sorted)


lemma set_js_sort: "set (js_sort cmp xs) = set xs"
  using mset_js_sort [of cmp xs, THEN arg_cong, of set_mset] by simp















section \<open>Facts about the achievement merge\<close>






section \<open>Facts about the mastery classifier\<close>



lemma achieved_le_total: "achieved_count ps \<le> total_count ps"
  by (simp add: achieved_count_def total_count_def)

text \<open>The ratio is 1 exactly when every achievement of the game is achieved.\<close>

lemma ratio_one:
  "0 < total_count ps \<Longrightarrow> ratio ps = 1 \<longleftrightarrow> achieved_count ps = total_count ps"
  by (auto simp: ratio_def)

lemma ratio_one_all:
  "0 < total_count ps \<Longrightarrow>
     ratio ps = 1 \<longleftrightarrow>
       (\<forall>a \<in> set (list_or_empty (Option.bind ps achievements)). achieved a = 1)"
proof -
  have "length (filter P xs) = length xs \<longleftrightarrow> (\<forall>x \<in> set xs. P x)" for P and xs :: "'b list"
    by (metis filter_True filter_id_conv length_filter_less less_irrefl)
  then show "0 < total_count ps \<Longrightarrow> ?thesis"
    by (simp add: ratio_one achieved_count_def total_count_def)
qed












section \<open>Facts about the persisted state\<close>

lemma try_catch_Inr: "try_catch body (\<lambda>e. Inr d) = Inr (case body of Inl e \<Rightarrow> d | Inr v \<Rightarrow> v)"
  by (simp add: try_catch_def split: sum.split)

lemma getStoredLinks_total:
  "getStoredLinks JSON_parse ls appId
     = Inr (case JSON_parse (str_or (getItem ls (''vanguard-videos-'' @ number_to_string appId))
                               ''{}'') of
              Inl e \<Rightarrow> Map.empty
            | Inr v \<Rightarrow> v)"
  by (simp add: getStoredLinks_def try_catch_Inr)

lemma gameMetadata_loop_total: "\<exists>m. gameMetadata_loop JSON_parse ls meta = Inr m"
proof (induction ls arbitrary: meta)
  case Nil
  then show ?case by simp
next
  case (Cons kv ls)
  obtain key v where kv: "kv = (key, v)"
    by (cases kv)
  show ?case
    using Cons.IH by (cases "JSON_parse v") (simp_all add: kv try_catch_def Let_def)
qed

lemma gameMetadata_loop_corrupt:
  "\<forall>kv \<in> set ls. \<exists>e. JSON_parse (snd kv) = Inl e \<Longrightarrow>
     gameMetadata_loop JSON_parse ls meta = Inr meta"
proof (induction ls)
  case Nil
  then show ?case by simp
next
  case (Cons kv ls)
  obtain key v where kv: "kv = (key, v)"
    by (cases kv)
  from Cons.prems obtain e where "JSON_parse v = Inl e"
    by (auto simp: kv)
  with Cons show ?case
    by (simp add: kv try_catch_def Let_def)
qed

text \<open>
  An entry whose value does not parse is as good as absent.
\<close>

lemma gameMetadata_loop_skip:
  "gameMetadata_loop JSON_parse ls meta
     = gameMetadata_loop JSON_parse (filter (\<lambda>kv. \<not> isl (JSON_parse (snd kv))) ls) meta"
proof (induction ls arbitrary: meta)
  case Nil
  then show ?case by simp
next
  case (Cons kv ls)
  obtain key v where kv: "kv = (key, v)"
    by (cases kv)
  show ?case
  proof (cases "JSON_parse v")
    case (Inl e)
    then show ?thesis
      using Cons.IH [of meta] by (simp add: kv try_catch_def Let_def)
  next
    case (Inr m)
    then show ?thesis
      using Cons.IH by (simp add: kv try_catch_def Let_def fun_upd_def)
  qed
qed

lemma number_to_string_7: "number_to_string 7 = ''7''"
  by code_simp

lemma number_to_string_10: "number_to_string 10 = ''10''"
  by code_simp

section \<open>Facts about the scan\<close>

lemma processGame_flag: "isScanning (fst (fst (processGame env k sg))) = isScanning (fst sg)"
  by (simp add: processGame_def Let_def split: sum.split option.split)

lemma process_chunk_flag: "isScanning (fst (fst (process_chunk env c sg))) = isScanning (fst sg)"
proof (induction c arbitrary: sg)
  case Nil
  then show ?case by simp
next
  case (Cons k c)
  obtain sg1 e1 where p1: "processGame env k sg = (sg1, e1)"
    by (cases "processGame env k sg")
  obtain sg2 e2 where p2: "process_chunk env c sg1 = (sg2, e2)"
    by (cases "process_chunk env c sg1")
  have "isScanning (fst sg2) = isScanning (fst sg1)"
    using Cons.IH [of sg1] by (simp add: p2)
  moreover have "isScanning (fst sg1) = isScanning (fst sg)"
    using processGame_flag [of env k sg] by (simp add: p1)
  ultimately show ?case
    by (simp add: p1 p2)
qed

lemma scan_chunks_flag:
  "isScanning (fst (fst (scan_chunks env cs sg processed))) = isScanning (fst sg)"
proof (induction cs arbitrary: sg processed)
  case Nil
  then show ?case by simp
next
  case (Cons c cs)
  obtain sg1 err where pc: "process_chunk env c sg = (sg1, err)"
    by (cases "process_chunk env c sg")
  have flag: "isScanning (fst sg1) = isScanning (fst sg)"
    using process_chunk_flag [of env c sg] by (simp add: pc)
  show ?case
  proof (cases err)
    case None
    then show ?thesis
      using Cons.IH [of sg1 "processed @ c"] flag by (simp add: pc)
  next
    case (Some e)
    then show ?thesis
      using flag by (simp add: pc)
  qed
qed









section \<open>Worked examples\<close>

text \<open>Games with equal play time keep their input order.\<close>

lemma js_sort_stable_example:
  "map appid (js_sort by_playtime
     [\<lparr> appid = 1, name = ''A'', playtime_forever = 5, img_icon_url = '''', playtime_2weeks = None \<rparr>,
      \<lparr> appid = 2, name = ''B'', playtime_forever = 7, img_icon_url = '''', playtime_2weeks = None \<rparr>,
      \<lparr> appid = 3, name = ''C'', playtime_forever = 5, img_icon_url = '''', playtime_2weeks = None \<rparr>])
   = [2, 1, 3]"
  by (simp add: by_playtime_def of_int_num_def)

text \<open>
  One run of the hook on an answer with three achievements: merged with the schema and
  the global percentages (a number, a string and a missing entry), then ordered.
\<close>

lemma fetchAchievements_example:
  "map (\<lambda>a. (w_name a, w_achieved a, w_percent a))
     (hs_achievements
        (fetchAchievements
           (Some \<lparr> body_playerstats =
                     Some \<lparr> success = Some True, error = None,
                            achievements =
                              Some [\<lparr> apiname = ''A'', achieved = 1 \<rparr>,
                                    \<lparr> apiname = ''B'', achieved = 0 \<rparr>,
                                    \<lparr> apiname = ''C'', achieved = 0 \<rparr>] \<rparr>,
                   body_schema =
                     Some [\<lparr> sa_name = ''B'', displayName = Some ''Second'', description = None,
                             icon = None, icongray = None \<rparr>],
                   body_globalStats =
                     Some [\<lparr> ga_name = ''A'', percent = PNumber 80 \<rparr>,
                           \<lparr> ga_name = ''C'', percent = PString ''90.5'' \<rparr>] \<rparr>)
           Map.empty
           \<lparr> hs_achievements = [], hs_loading = True, hs_error = None \<rparr>))
   = [(''C'', 0, Finite (181 / 2)), (''Second'', 0, Finite 0), (''A'', 1, Finite 80)]"
  by code_simp

text \<open>Without a configured key the route answers 401.\<close>

lemma get_achievements_no_key:
  "get_achievements '''' achResponse schemaResponse globalStatsResponse = Inl 401"
  by (simp add: get_achievements_def)

text \<open>
  The metadata initializer on a store with one entry that parses and one that does not.
\<close>

lemma gameMetadata_init_example:
  "(case gameMetadata_init
           (\<lambda>s. if s = ''{}'' then
                   Inr \<lparr> genres = None, categories = None, metacritic = None,
                         release_date = None \<rparr>
                 else Inl SyntaxError)
           [(''vanguard-meta-7'', ''{}''), (''vanguard-steam-id'', ''x''),
            (''vanguard-meta-8'', ''{'')] of
      Inl e \<Rightarrow> False
    | Inr m \<Rightarrow>
        m (Finite 7) = Some \<lparr> genres = None, categories = None, metacritic = None,
                                release_date = None \<rparr>
        \<and> m (Finite 8) = None)"
  by code_simp

text \<open>
  A scan from an idle state over two games, one of them cached: the other is requested,
  stored, and its genre joins the set.
\<close>

lemma scanLibrary_example:
  "(case scanLibrary
           \<lparr> env_parse =
               (\<lambda>s. if s = ''{..}'' then
                       Inr \<lparr> genres = Some [\<lparr> genre_id = ''3'', genre_description = ''RPG'' \<rparr>],
                             categories = None, metacritic = None, release_date = None \<rparr>
                     else Inl SyntaxError),
             env_stringify = (\<lambda>m. ''{..}''),
             env_stringify_genres = (\<lambda>g. ''[..]''),
             env_get =
               (\<lambda>k. Some \<lparr> genres = Some [\<lparr> genre_id = ''3'', genre_description = ''RPG'' \<rparr>],
                             categories = None, metacritic = None, release_date = None \<rparr>) \<rparr>
           \<lparr> isScanning = False, localStorage = [(''vanguard-meta-10'', ''{..}'')],
             availableGenres = [], gameMetadata = Map.empty \<rparr>
           [\<lparr> appid = 10, name = ''A'', playtime_forever = 5, img_icon_url = '''',
              playtime_2weeks = None \<rparr>,
            \<lparr> appid = 20, name = ''B'', playtime_forever = 7, img_icon_url = '''',
              playtime_2weeks = None \<rparr>] of
      (st, processed, out) \<Rightarrow>
        processed = [20] \<and> out = Returned \<and> \<not> isScanning st
        \<and> map fst (localStorage st)
            = [''vanguard-meta-10'', ''vanguard-meta-20'', ''vanguard-genres'']
        \<and> availableGenres st = [''RPG'']
        \<and> gameMetadata st (Finite 10) = None
        \<and> gameMetadata st (Finite 20)
            = Some \<lparr> genres = Some [\<lparr> genre_id = ''3'', genre_description = ''RPG'' \<rparr>],
                       categories = None, metacritic = None, release_date = None \<rparr>)"
  by code_simp

section \<open>Claims about the aggregation\<close>

text \<open>
  C1, as claimed: for every game id present in both lists, the aggregated entry has the
  maximum of the two totals and the recent entry's recent play time. The code does this
  for id 480 only. With game 10 owned with total 5 and recently played with total 7 and
  recent play time 3, the aggregated entry for game 10 is the owned entry as it was:
  total 5, not 7, and no recent play time.
\<close>

theorem reconcile_all_ids_counterexample:
  "games_queryFn
     [\<lparr> appid = 10, name = ''A'', playtime_forever = 5, img_icon_url = '''',
        playtime_2weeks = None \<rparr>]
     [\<lparr> appid = 10, name = ''A'', playtime_forever = 7, img_icon_url = '''',
        playtime_2weeks = Some 3 \<rparr>]
   = [\<lparr> appid = 10, name = ''A'', playtime_forever = 5, img_icon_url = '''',
        playtime_2weeks = None \<rparr>,
      \<lparr> appid = 480, name = ''ELDEN RING COOP'', playtime_forever = 0, img_icon_url = '''',
        playtime_2weeks = Some 0 \<rparr>]
   \<and> (5 :: int) \<noteq> max 5 7"
  by (simp add: games_queryFn_def Let_def recentGamesMap_def spacewar_def rename480_def or0_def)

text \<open>
  C1, amended: when id 480 is present in both lists, the aggregated entry for 480 (the
  first owned entry with that id) has the maximum of the owned total and the total of the
  recent entry the lookup gives, and that recent entry's recent play time; the entries of
  every other id are the owned entries, unchanged and in order.
\<close>

theorem reconcile_480_only:
  "(List.find (\<lambda>g. appid g = 480) owned = Some ow \<and> recentGamesMap recent 480 = Some r \<longrightarrow>
      List.find (\<lambda>g. appid g = 480) (games_queryFn owned recent)
        = Some (ow\<lparr> name := ''ELDEN RING COOP'',
                    playtime_forever := max (playtime_forever ow) (playtime_forever r),
                    playtime_2weeks := playtime_2weeks r \<rparr>))
   \<and> filter (\<lambda>g. appid g \<noteq> 480) (games_queryFn owned recent)
        = filter (\<lambda>g. appid g \<noteq> 480) owned"
proof (intro conjI impI)
  assume a: "List.find (\<lambda>g. appid g = 480) owned = Some ow \<and> recentGamesMap recent 480 = Some r"
  then have rr: "recentGamesMap recent 480 = Some r"
    by (rule conjunct2)
  from a have "\<exists>i. findIndex (\<lambda>g. appid g = 480) owned = Some i \<and> owned ! i = ow"
    using findIndex_find [of "\<lambda>g. appid g = 480" owned ow] by simp
  then obtain i where i: "findIndex (\<lambda>g. appid g = 480) owned = Some i" and oi: "owned ! i = ow"
    by (elim exE conjE)
  let ?y = "ow\<lparr> playtime_forever := max (playtime_forever ow) (playtime_forever r),
                playtime_2weeks := playtime_2weeks r \<rparr>"
  have ow: "appid ow = 480"
    using findIndex_Some [OF i] oi by blast
  have eq: "games_queryFn owned recent = map rename480 (owned[i := ?y])"
    using games_queryFn_present_recent [OF i rr] by (simp only: oi)
  have "List.find (\<lambda>g. appid g = 480) (map rename480 (owned[i := ?y])) = Some (rename480 ?y)"
    using i by (rule find_map_update) (simp_all add: ow)
  moreover have "rename480 ?y = ow\<lparr> name := ''ELDEN RING COOP'',
                    playtime_forever := max (playtime_forever ow) (playtime_forever r),
                    playtime_2weeks := playtime_2weeks r \<rparr>"
    by (simp add: rename480_def ow)
  ultimately show "List.find (\<lambda>g. appid g = 480) (games_queryFn owned recent)
        = Some (ow\<lparr> name := ''ELDEN RING COOP'',
                    playtime_forever := max (playtime_forever ow) (playtime_forever r),
                    playtime_2weeks := playtime_2weeks r \<rparr>)"
    by (simp only: eq)
next
  show "filter (\<lambda>g. appid g \<noteq> 480) (games_queryFn owned recent)
        = filter (\<lambda>g. appid g \<noteq> 480) owned"
    by (rule games_queryFn_others)
qed

theorem reconcile_480_only_witness:
  "List.find (\<lambda>g. appid g = 480)
     (games_queryFn
        [\<lparr> appid = 10, name = ''A'', playtime_forever = 5, img_icon_url = '''',
           playtime_2weeks = None \<rparr>,
         \<lparr> appid = 480, name = ''Spacewar'', playtime_forever = 30, img_icon_url = ''i'',
           playtime_2weeks = None \<rparr>]
        [\<lparr> appid = 480, name = ''Spacewar'', playtime_forever = 42, img_icon_url = ''i'',
           playtime_2weeks = Some 12 \<rparr>])
   = Some \<lparr> appid = 480, name = ''ELDEN RING COOP'', playtime_forever = 42,
            img_icon_url = ''i'', playtime_2weeks = Some 12 \<rparr>"
  using reconcile_480_only
    [of "[\<lparr> appid = 10, name = ''A'', playtime_forever = 5, img_icon_url = '''',
           playtime_2weeks = None \<rparr>,
         \<lparr> appid = 480, name = ''Spacewar'', playtime_forever = 30, img_icon_url = ''i'',
           playtime_2weeks = None \<rparr>]"
        "\<lparr> appid = 480, name = ''Spacewar'', playtime_forever = 30, img_icon_url = ''i'',
           playtime_2weeks = None \<rparr>"
        "[\<lparr> appid = 480, name = ''Spacewar'', playtime_forever = 42, img_icon_url = ''i'',
           playtime_2weeks = Some 12 \<rparr>]"
        "\<lparr> appid = 480, name = ''Spacewar'', playtime_forever = 42, img_icon_url = ''i'',
           playtime_2weeks = Some 12 \<rparr>"]
  by (simp add: recentGamesMap_def)

text \<open>
  C8: when the recently played list has an entry for id 480, every such entry with play
  time 42, and the owned list has none, the aggregated list has exactly one entry for
  480; its total is 42 and its name the override.
\<close>

theorem pseudo_game_synthesis:
  assumes "r \<in> set recent" and "appid r = 480"
    and "\<forall>g \<in> set recent. appid g = 480 \<longrightarrow> playtime_forever g = 42"
    and "480 \<notin> appid ` set owned"
  shows "\<exists>e. filter (\<lambda>g. appid g = 480) (games_queryFn owned recent) = [e]
             \<and> appid e = 480 \<and> playtime_forever e = 42 \<and> name e = ''ELDEN RING COOP''"
proof -
  from assms(1,2) have "recentGamesMap recent 480 \<noteq> None"
    by (auto simp: recentGamesMap_None)
  then obtain r' where r': "recentGamesMap recent 480 = Some r'"
    by auto
  with assms(3) have pt: "playtime_forever r' = 42"
    using recentGamesMap_Some by blast
  have none: "filter (\<lambda>g. appid g = 480) owned = []"
    using assms(4) by (auto simp: filter_empty_conv)
  show ?thesis
    using games_queryFn_absent [OF assms(4), of recent] r' pt none
    by (simp add: spacewar_def or0_def)
qed

theorem pseudo_game_synthesis_witness:
  "\<exists>e. filter (\<lambda>g. appid g = 480)
          (games_queryFn
             [\<lparr> appid = 10, name = ''A'', playtime_forever = 5, img_icon_url = '''',
                playtime_2weeks = None \<rparr>]
             [\<lparr> appid = 480, name = ''Spacewar'', playtime_forever = 42, img_icon_url = '''',
                playtime_2weeks = Some 42 \<rparr>]) = [e]
        \<and> appid e = 480 \<and> playtime_forever e = 42 \<and> name e = ''ELDEN RING COOP''"
  using pseudo_game_synthesis
    [of "\<lparr> appid = 480, name = ''Spacewar'', playtime_forever = 42, img_icon_url = '''',
           playtime_2weeks = Some 42 \<rparr>"
        "[\<lparr> appid = 480, name = ''Spacewar'', playtime_forever = 42, img_icon_url = '''',
           playtime_2weeks = Some 42 \<rparr>]"
        "[\<lparr> appid = 10, name = ''A'', playtime_forever = 5, img_icon_url = '''',
           playtime_2weeks = None \<rparr>]"]
  by simp

text \<open>
  C10: the aggregated list always has an entry with id 480, and every entry with that id
  carries the name \<open>ELDEN RING COOP\<close>. When the owned list has no such entry, one is
  appended whatever the recently played list holds; when that list has none either, the
  appended entry has total 0 and recent play time 0.
\<close>

theorem spacewar_always_included:
  "(\<exists>g \<in> set (games_queryFn owned recent). appid g = 480)
   \<and> (\<forall>g \<in> set (games_queryFn owned recent). appid g = 480 \<longrightarrow> name g = ''ELDEN RING COOP'')
   \<and> (480 \<notin> appid ` set owned \<longrightarrow>
        games_queryFn owned recent
          = owned @ [(spacewar (recentGamesMap recent 480))\<lparr>name := ''ELDEN RING COOP''\<rparr>])
   \<and> (480 \<notin> appid ` set owned \<and> 480 \<notin> appid ` set recent \<longrightarrow>
        games_queryFn owned recent
          = owned @ [\<lparr> appid = 480, name = ''ELDEN RING COOP'', playtime_forever = 0,
                       img_icon_url = '''', playtime_2weeks = Some 0 \<rparr>])"
proof (intro conjI impI ballI)
  show "\<exists>g \<in> set (games_queryFn owned recent). appid g = 480"
    by (rule games_queryFn_contains_480)
next
  fix g
  assume "g \<in> set (games_queryFn owned recent)" and "appid g = 480"
  then show "name g = ''ELDEN RING COOP''"
    by (rule games_queryFn_renamed)
next
  assume "480 \<notin> appid ` set owned"
  then show "games_queryFn owned recent
          = owned @ [(spacewar (recentGamesMap recent 480))\<lparr>name := ''ELDEN RING COOP''\<rparr>]"
    by (rule games_queryFn_absent)
next
  assume a: "480 \<notin> appid ` set owned \<and> 480 \<notin> appid ` set recent"
  then have "recentGamesMap recent 480 = None"
    by (simp add: recentGamesMap_None)
  with a show "games_queryFn owned recent
          = owned @ [\<lparr> appid = 480, name = ''ELDEN RING COOP'', playtime_forever = 0,
                       img_icon_url = '''', playtime_2weeks = Some 0 \<rparr>]"
    by (simp add: games_queryFn_absent spacewar_def or0_def)
qed

theorem spacewar_always_included_witness:
  "games_queryFn
     [\<lparr> appid = 10, name = ''A'', playtime_forever = 5, img_icon_url = '''',
        playtime_2weeks = None \<rparr>]
     [\<lparr> appid = 20, name = ''B'', playtime_forever = 7, img_icon_url = '''',
        playtime_2weeks = Some 3 \<rparr>]
   = [\<lparr> appid = 10, name = ''A'', playtime_forever = 5, img_icon_url = '''',
        playtime_2weeks = None \<rparr>,
      \<lparr> appid = 480, name = ''ELDEN RING COOP'', playtime_forever = 0, img_icon_url = '''',
        playtime_2weeks = Some 0 \<rparr>]"
  using spacewar_always_included
    [of "[\<lparr> appid = 10, name = ''A'', playtime_forever = 5, img_icon_url = '''',
           playtime_2weeks = None \<rparr>]"
        "[\<lparr> appid = 20, name = ''B'', playtime_forever = 7, img_icon_url = '''',
           playtime_2weeks = Some 3 \<rparr>]"]
  by (simp add: recentGamesMap_def spacewar_def or0_def)

section \<open>Claims about the vault view and the achievement order\<close>

text \<open>
  C2: the status filter. \<open>all\<close> keeps every game; \<open>mastered\<close>, \<open>blacklisted\<close> and
  \<open>hunter\<close> keep exactly the games whose id is in the mastered ids, the blacklist and the
  hunter targets; \<open>active\<close> keeps exactly the games with a recent play time above 0. The
  view as a whole holds exactly the games that pass the text filter and the status
  filter. The \<^verbatim>\<open>useVault\<close> hook filters the same way on the four values it has,
  between its text filter and its genre filter.
\<close>

theorem status_filter_keeps_exactly:
  "status_filter F_all masteredAppIds blacklist hunterTargets gs = gs
   \<and> status_filter F_mastered masteredAppIds blacklist hunterTargets gs
       = filter (\<lambda>g. appid g \<in> set masteredAppIds) gs
   \<and> status_filter F_blacklisted masteredAppIds blacklist hunterTargets gs
       = filter (\<lambda>g. appid g \<in> set blacklist) gs
   \<and> status_filter F_active masteredAppIds blacklist hunterTargets gs
       = filter (\<lambda>g. \<exists>n. playtime_2weeks g = Some n \<and> 0 < n) gs
   \<and> status_filter F_hunter masteredAppIds blacklist hunterTargets gs
       = filter (\<lambda>g. appid g \<in> set hunterTargets) gs
   \<and> mset (filteredAndSortedGames toLowerCase localeCompare games searchQuery vaultFilter
              vaultSortBy masteredAppIds blacklist hunterTargets)
       = mset (status_filter vaultFilter masteredAppIds blacklist hunterTargets
                 (filter (\<lambda>g. str_includes (toLowerCase (name g)) (toLowerCase searchQuery))
                    games))
   \<and> mset (useVault_filteredAndSortedGames toLowerCase localeCompare games searchQuery
              hookFilter hookSortBy masteredAppIds blacklist selectedGenres metadata)
       = mset (genre_filter selectedGenres metadata
                 (useVault_status_filter hookFilter masteredAppIds blacklist
                    (filter (\<lambda>g. str_includes (toLowerCase (name g)) (toLowerCase searchQuery))
                       games)))
   \<and> useVault_status_filter V_all masteredAppIds blacklist gs = gs
   \<and> useVault_status_filter V_mastered masteredAppIds blacklist gs
       = filter (\<lambda>g. appid g \<in> set masteredAppIds) gs
   \<and> useVault_status_filter V_blacklisted masteredAppIds blacklist gs
       = filter (\<lambda>g. appid g \<in> set blacklist) gs
   \<and> useVault_status_filter V_active masteredAppIds blacklist gs
       = filter (\<lambda>g. \<exists>n. playtime_2weeks g = Some n \<and> 0 < n) gs"
proof -
  have active: "(0 < or0 (playtime_2weeks g)) = (\<exists>n. playtime_2weeks g = Some n \<and> 0 < n)" for g
    by (cases "playtime_2weeks g") (simp_all add: or0_def)
  show ?thesis
    by (simp add: status_filter_def useVault_status_filter_def filteredAndSortedGames_def
        useVault_filteredAndSortedGames_def Let_def mset_js_sort active)
qed

theorem status_filter_keeps_exactly_witness:
  "status_filter F_hunter [10] [20] [30]
     [\<lparr> appid = 10, name = ''A'', playtime_forever = 5, img_icon_url = '''',
        playtime_2weeks = None \<rparr>,
      \<lparr> appid = 30, name = ''C'', playtime_forever = 7, img_icon_url = '''',
        playtime_2weeks = Some 3 \<rparr>]
   = [\<lparr> appid = 30, name = ''C'', playtime_forever = 7, img_icon_url = '''',
        playtime_2weeks = Some 3 \<rparr>]
   \<and> status_filter F_active [10] [20] [30]
     [\<lparr> appid = 10, name = ''A'', playtime_forever = 5, img_icon_url = '''',
        playtime_2weeks = None \<rparr>,
      \<lparr> appid = 30, name = ''C'', playtime_forever = 7, img_icon_url = '''',
        playtime_2weeks = Some 3 \<rparr>]
   = [\<lparr> appid = 30, name = ''C'', playtime_forever = 7, img_icon_url = '''',
        playtime_2weeks = Some 3 \<rparr>]"
  using status_filter_keeps_exactly
    [of "[10]" "[20]" "[30]"
        "[\<lparr> appid = 10, name = ''A'', playtime_forever = 5, img_icon_url = '''',
            playtime_2weeks = None \<rparr>,
          \<lparr> appid = 30, name = ''C'', playtime_forever = 7, img_icon_url = '''',
            playtime_2weeks = Some 3 \<rparr>]"]
  by simp



section \<open>Claims about the achievement resolver\<close>

text \<open>
  C5: when a key is configured and the player achievement request is rejected with an
  error body whose \<^verbatim>\<open>playerstats.error\<close> is \<open>Profile is not public\<close>, the route answers
  with \<^verbatim>\<open>playerstats\<close> marked \<open>Private Profile\<close>, unsuccessful and without any achievement
  list, beside the schema and the global fragments of the requests that were fulfilled
  (an empty list for one that was not); the hook turns that answer into an empty
  achievement list with the error \<open>Private Profile\<close>.
\<close>

theorem private_profile_short_circuit:
  assumes "STEAM_API_KEY \<noteq> ''''"
    and "response_playerstats reason = Some ps"
    and "error ps = Some ''Profile is not public''"
  shows "get_achievements STEAM_API_KEY (Rejected reason) schemaResponse globalStatsResponse
           = Inr \<lparr> body_playerstats =
                     Some \<lparr> success = Some False, error = Some ''Private Profile'',
                            achievements = None \<rparr>,
                   body_schema =
                     (case schemaResponse of Fulfilled d \<Rightarrow> d | Rejected e \<Rightarrow> Some []),
                   body_globalStats =
                     (case globalStatsResponse of Fulfilled d \<Rightarrow> d | Rejected e \<Rightarrow> Some []) \<rparr>
         \<and> (\<exists>body. get_achievements STEAM_API_KEY (Rejected reason) schemaResponse
                       globalStatsResponse = Inr body
                \<and> fetchAchievements (Some body) storedLinks st
                    = \<lparr> hs_achievements = [], hs_loading = False,
                        hs_error = Some ''Private Profile'' \<rparr>)"
  using assms
  by (simp add: get_achievements_def is_private_profile_def fulfilled_or_def
      fetchAchievements_def str_or_def)

theorem private_profile_short_circuit_witness:
  "get_achievements ''key''
     (Rejected \<lparr> response_playerstats =
                   Some \<lparr> success = Some False, error = Some ''Profile is not public'',
                          achievements = None \<rparr>,
                 message = ''Request failed with status code 403'' \<rparr>)
     (Fulfilled (Some [\<lparr> sa_name = ''A'', displayName = Some ''First'', description = None,
                         icon = None, icongray = None \<rparr>]))
     (Rejected \<lparr> response_playerstats = None, message = ''timeout'' \<rparr>)
   = Inr \<lparr> body_playerstats =
             Some \<lparr> success = Some False, error = Some ''Private Profile'',
                    achievements = None \<rparr>,
           body_schema = Some [\<lparr> sa_name = ''A'', displayName = Some ''First'',
                                 description = None, icon = None, icongray = None \<rparr>],
           body_globalStats = Some [] \<rparr>"
  using private_profile_short_circuit
    [of "''key''"
        "\<lparr> response_playerstats =
             Some \<lparr> success = Some False, error = Some ''Profile is not public'',
                    achievements = None \<rparr>,
           message = ''Request failed with status code 403'' \<rparr>"
        "\<lparr> success = Some False, error = Some ''Profile is not public'', achievements = None \<rparr>"
        "Fulfilled (Some [\<lparr> sa_name = ''A'', displayName = Some ''First'', description = None,
                            icon = None, icongray = None \<rparr>])"
        "Rejected \<lparr> response_playerstats = None, message = ''timeout'' \<rparr>"]
  by simp




section \<open>Claims about the mastery classifier\<close>



section \<open>Claims about the persisted state and the scan\<close>

text \<open>
  C7: the claim asks every loader to give its default for a stored text that does not
  parse. The blacklist initializer does not: for a stored, non-empty text that
  \<^verbatim>\<open>JSON.parse\<close> rejects it ends with the parser's error. The two sibling loaders do what
  the claim says: \<^verbatim>\<open>getStoredLinks\<close> always returns, with the empty map for a text that
  does not parse, and the metadata initializer always returns, with the result it would
  give had the entries whose value does not parse not been stored.
\<close>

theorem blacklist_init_throws:
  "(getItem ls ''vanguard-blacklist'' = Some saved \<and> saved \<noteq> '''' \<and> JSON_parse saved = Inl e
      \<longrightarrow> blacklist_init JSON_parse ls = Inl e)
   \<and> (\<exists>m. getStoredLinks parse_links ls appId = Inr m)
   \<and> (parse_links (str_or (getItem ls (''vanguard-videos-'' @ number_to_string appId)) ''{}'')
          = Inl e2
      \<longrightarrow> getStoredLinks parse_links ls appId = Inr Map.empty)
   \<and> (\<exists>m. gameMetadata_init parse_meta ls = Inr m)
   \<and> gameMetadata_init parse_meta ls
       = gameMetadata_init parse_meta (filter (\<lambda>kv. \<not> isl (parse_meta (snd kv))) ls)
   \<and> ((\<forall>kv \<in> set ls. \<exists>e. parse_meta (snd kv) = Inl e)
      \<longrightarrow> gameMetadata_init parse_meta ls = Inr Map.empty)"
proof (intro conjI impI)
  assume "getItem ls ''vanguard-blacklist'' = Some saved \<and> saved \<noteq> '''' \<and> JSON_parse saved = Inl e"
  then show "blacklist_init JSON_parse ls = Inl e"
    by (simp add: blacklist_init_def)
next
  show "\<exists>m. getStoredLinks parse_links ls appId = Inr m"
    by (simp add: getStoredLinks_total)
next
  assume "parse_links (str_or (getItem ls (''vanguard-videos-'' @ number_to_string appId)) ''{}'')
          = Inl e2"
  then show "getStoredLinks parse_links ls appId = Inr Map.empty"
    by (simp add: getStoredLinks_total)
next
  show "\<exists>m. gameMetadata_init parse_meta ls = Inr m"
    unfolding gameMetadata_init_def by (rule gameMetadata_loop_total)
next
  show "gameMetadata_init parse_meta ls
       = gameMetadata_init parse_meta (filter (\<lambda>kv. \<not> isl (parse_meta (snd kv))) ls)"
    unfolding gameMetadata_init_def by (rule gameMetadata_loop_skip)
next
  assume "\<forall>kv \<in> set ls. \<exists>e. parse_meta (snd kv) = Inl e"
  then show "gameMetadata_init parse_meta ls = Inr Map.empty"
    unfolding gameMetadata_init_def by (rule gameMetadata_loop_corrupt)
qed

theorem blacklist_init_throws_witness:
  "blacklist_init (\<lambda>s. if s = ''[]'' then Inr [] else Inl SyntaxError)
     [(''vanguard-blacklist'', ''{''), (''vanguard-videos-7'', ''{''), (''vanguard-meta-7'', ''{'')]
     = Inl SyntaxError
   \<and> getStoredLinks (\<lambda>s. if s = ''{}'' then Inr Map.empty else Inl SyntaxError)
       [(''vanguard-blacklist'', ''{''), (''vanguard-videos-7'', ''{''), (''vanguard-meta-7'', ''{'')]
       7 = Inr Map.empty
   \<and> gameMetadata_init (\<lambda>s. Inl SyntaxError)
       [(''vanguard-blacklist'', ''{''), (''vanguard-videos-7'', ''{''), (''vanguard-meta-7'', ''{'')]
       = Inr Map.empty"
  using blacklist_init_throws
    [of "[(''vanguard-blacklist'', ''{''), (''vanguard-videos-7'', ''{''),
          (''vanguard-meta-7'', ''{'')]"
        "''{''"
        "\<lambda>s. if s = ''[]'' then Inr [] else Inl SyntaxError" SyntaxError
        "\<lambda>s. if s = ''{}'' then Inr Map.empty else Inl SyntaxError" 7 SyntaxError
        "\<lambda>s. Inl SyntaxError"]
  by (simp add: getItem_def number_to_string_7 str_or_def gameMetadata_init_def)



end
